theory Spec2Isabelle
  imports Complex_Main "HOL-Library.List_Lexorder" "HOL-Library.Char_ord"
begin

section \<open>Data model\<close>

text \<open>
  The dashboard client exists in two versions in \<^verbatim>\<open>docs/js/app.js\<close>: the current one
  (with the custom time range, the live-feed timestamp check and the CSV export) and an
  older one (with the push-stream driven live feed). Functions of the older version carry
  the suffix \<open>_v2\<close>; where both versions have the same text, one definition serves both.

  JSON values: a timestamp is the string the backend sends (ISO-8601, so that the
  lexicographic order of two timestamps of the same format is their order in time); an
  optional number is \<open>real option\<close>, \<open>None\<close> standing for \<open>null\<close> and
  \<open>undefined\<close>. A number is the real it denotes; the one place where the code computes
  with numbers that reach a claim (a division) takes the browser's division as a parameter.
\<close>

type_synonym timestamp = string

record reading =
  rd_node_id :: string
  rd_timestamp :: timestamp
  rd_temperature :: "real option"
  rd_relative_humidity :: "real option"
  rd_soil_moisture :: "real option"
  rd_lux :: "real option"
  rd_voltage :: "real option"

record node_summary =
  ns_node_id :: string
  ns_last_seen :: timestamp
  ns_reading_count :: nat
  ns_avg_temp :: "real option"
  ns_avg_humidity :: "real option"
  ns_avg_voltage :: "real option"

record decision =
  dc_node_id :: string
  dc_timestamp :: timestamp
  dc_decision :: string
  dc_action :: string
  dc_confidence :: real

record location =
  loc_node_id :: string
  loc_name :: "string option"
  loc_lat :: "real option"
  loc_lon :: "real option"
  loc_avg_temp :: "real option"
  loc_avg_humidity :: "real option"
  loc_avg_soil_moisture :: "real option"
  loc_avg_lux :: "real option"
  loc_avg_voltage :: "real option"

record point =
  pt_node_id :: string
  pt_timestamp :: timestamp
  pt_avg_temp :: "real option"
  pt_avg_humidity :: "real option"
  pt_avg_soil_moisture :: "real option"
  pt_avg_lux :: "real option"
  pt_avg_voltage :: "real option"

text \<open>
  The children of a container element: the placeholder paragraph of class \<open>loading\<close>
  with its text, or an item rendered from one datum (\<open>createLiveDataItem\<close> and the cards
  are functions of the datum alone, so the item is represented by the datum).
\<close>

datatype 'a elem = Loading string | Item 'a

fun is_loading :: "'a elem \<Rightarrow> bool" where
  "is_loading (Loading _) = True"
| "is_loading (Item _) = False"

fun items :: "'a elem list \<Rightarrow> 'a list" where
  "items [] = []"
| "items (Loading _ # es) = items es"
| "items (Item x # es) = x # items es"

text \<open>What a chart receives: its label axis and one dataset per line drawn.\<close>

record dataset =
  ds_label :: string
  ds_data :: "real option list"
  ds_borderColor :: string

record chart =
  ch_labels :: "string list"
  ch_datasets :: "dataset list"

text \<open>
  A marker and a heat sample carry the coordinates as the location has them (the older
  version passes them on without looking at them).
\<close>

datatype marker = Marker "real option" "real option" location

type_synonym heat_point = "real option \<times> real option \<times> real"

text \<open>
  The outcome of \<open>fetch\<close>: the promise rejects (\<open>NetworkError\<close>), or a response arrives
  with its status code and its body, \<open>None\<close> when reading the body fails
  (\<open>response.json()\<close> rejects).
\<close>

datatype 'a response = NetworkError | Http nat "'a option"

definition response_ok :: "nat \<Rightarrow> bool" where
  "response_ok status = (200 \<le> status \<and> status \<le> 299)"

datatype js_error = TypeError | SyntaxError | RangeError | InvalidLatLng

text \<open>
  The application object and the parts of the document it reads and writes. \<open>requests\<close>
  is the list of URLs handed to \<open>fetch\<close>, oldest first; \<open>alerts\<close> the messages shown
  with \<open>alert\<close>; \<open>downloads\<close> the files saved (name and content); \<open>uncaught\<close>
  the exceptions that left an event handler or rejected a promise nobody awaits.
\<close>

record app =
  isConnected :: bool
  customTimeRange_start :: "string option"
  customTimeRange_end :: "string option"
  isCustomRange :: bool
  lastLiveDataTimestamp :: "timestamp option"
  dom_timeRange :: string
  dom_startTime :: string
  dom_endTime :: string
  dom_heatmapMetric :: string
  dom_customRangeControls :: string
  liveDataContainer :: "reading elem list"
  nodeStatsContainer :: "node_summary elem list"
  decisionsContainer :: "decision elem list"
  charts :: "(string \<times> chart) list"
  markers :: "marker list"
  heatLayer :: "heat_point list option"
  requests :: "string list"
  alerts :: "string list"
  downloads :: "(string \<times> string) list"
  uncaught :: "js_error list"

text \<open>The state the constructor builds, over a document as the page delivers it.\<close>

definition constructor :: "string \<Rightarrow> string \<Rightarrow> reading elem list \<Rightarrow> app" where
  "constructor timeRange0 heatmapMetric0 live0 =
     \<lparr> isConnected = False,
       customTimeRange_start = None,
       customTimeRange_end = None,
       isCustomRange = False,
       lastLiveDataTimestamp = None,
       dom_timeRange = timeRange0,
       dom_startTime = [],
       dom_endTime = [],
       dom_heatmapMetric = heatmapMetric0,
       dom_customRangeControls = ''none'',
       liveDataContainer = live0,
       nodeStatsContainer = [],
       decisionsContainer = [],
       charts = [],
       markers = [],
       heatLayer = None,
       requests = [],
       alerts = [],
       downloads = [],
       uncaught = [] \<rparr>"

section \<open>Configuration\<close>

definition API_BASE_URL :: string where
  "API_BASE_URL = ''https://mirror-nuke-lcd-ethical.trycloudflare.com''"

definition FEATURES_heatMap :: bool where
  "FEATURES_heatMap = True"

definition CHART_COLORS :: "(string \<times> string) list" where
  "CHART_COLORS =
     [(''temperature'', ''rgba(239, 68, 68, 1)''),
      (''humidity'', ''rgba(59, 130, 246, 1)''),
      (''soil_moisture'', ''rgba(16, 185, 129, 1)''),
      (''lux'', ''rgba(245, 158, 11, 1)''),
      (''voltage'', ''rgba(124, 58, 237, 1)'')]"

section \<open>API gateway and connection state\<close>

text \<open>
  \<open>updateConnectionStatus\<close> stores the flag; the status element's text and colour are
  functions of the flag and are not modelled.
\<close>

definition updateConnectionStatus :: "bool \<Rightarrow> app \<Rightarrow> app" where
  "updateConnectionStatus conn s = s\<lparr>isConnected := conn\<rparr>"

text \<open>
  \<open>fetchAPI\<close> in two halves, since its callers are not always awaited: the request
  leaves when the function is called, the rest runs when the response arrives.
\<close>

definition fetchAPI_send :: "string \<Rightarrow> app \<Rightarrow> app" where
  "fetchAPI_send endpoint s =
     s\<lparr>requests := requests s @ [API_BASE_URL @ ''/api'' @ endpoint]\<rparr>"

fun fetchAPI_receive :: "'a response \<Rightarrow> app \<Rightarrow> 'a option \<times> app" where
  "fetchAPI_receive NetworkError s = (None, updateConnectionStatus False s)"
| "fetchAPI_receive (Http status body) s =
     (if \<not> response_ok status then (None, updateConnectionStatus False s)
      else case body of
             None \<Rightarrow> (None, updateConnectionStatus False s)
           | Some d \<Rightarrow> (Some d, s))"

definition fetchAPI :: "string \<Rightarrow> 'a response \<Rightarrow> app \<Rightarrow> 'a option \<times> app" where
  "fetchAPI endpoint resp s = fetchAPI_receive resp (fetchAPI_send endpoint s)"

section \<open>Live feed\<close>

definition updateLiveDataFeed :: "reading list \<Rightarrow> app \<Rightarrow> app" where
  "updateLiveDataFeed dataArray s =
     (if dataArray = [] then s\<lparr>liveDataContainer := [Loading ''No data available'']\<rparr>
      else s\<lparr>liveDataContainer := map Item (take 10 dataArray)\<rparr>)"

definition fetchLiveData :: "reading list response \<Rightarrow> app \<Rightarrow> app" where
  "fetchLiveData resp s =
     (case fetchAPI ''/latest?limit=10'' resp s of
        (None, s1) \<Rightarrow> s1
      | (Some d, s1) \<Rightarrow>
          (case d of
             d0 # _ \<Rightarrow>
               (if lastLiveDataTimestamp s1 = None
                   \<or> Some (rd_timestamp d0) \<noteq> lastLiveDataTimestamp s1
                then updateLiveDataFeed d (s1\<lparr>lastLiveDataTimestamp := Some (rd_timestamp d0)\<rparr>)
                else s1)
           | [] \<Rightarrow> updateLiveDataFeed d s1))"

text \<open>The older version renders every batch, and renders all of it.\<close>

definition updateLiveDataFeed_v2 :: "reading list \<Rightarrow> app \<Rightarrow> app" where
  "updateLiveDataFeed_v2 dataArray s =
     (if dataArray = [] then s\<lparr>liveDataContainer := [Loading ''No data available'']\<rparr>
      else s\<lparr>liveDataContainer := map Item dataArray\<rparr>)"

definition fetchLiveData_v2 :: "reading list response \<Rightarrow> app \<Rightarrow> app" where
  "fetchLiveData_v2 resp s =
     (case fetchAPI ''/latest?limit=10'' resp s of
        (None, s1) \<Rightarrow> s1
      | (Some d, s1) \<Rightarrow> updateLiveDataFeed_v2 d s1)"

text \<open>
  \<open>addToLiveDataFeed\<close>: \<open>querySelector('.loading')\<close> finds the first placeholder (no
  item contains an element of that class) and removes it; the new item goes before the
  first child; the loop drops the last child while there are more than ten.
\<close>

fun remove_loading :: "'a elem list \<Rightarrow> 'a elem list" where
  "remove_loading [] = []"
| "remove_loading (e # es) = (if is_loading e then es else e # remove_loading es)"

function keep_latest :: "'a list \<Rightarrow> 'a list" where
  "keep_latest children = (if length children > 10 then keep_latest (butlast children) else children)"
  by pat_completeness auto
termination
  by (relation "measure length") auto

declare keep_latest.simps [simp del]

definition addToLiveDataFeed :: "reading \<Rightarrow> app \<Rightarrow> app" where
  "addToLiveDataFeed d s =
     s\<lparr>liveDataContainer := keep_latest (Item d # remove_loading (liveDataContainer s))\<rparr>"

text \<open>
  The feed buffer is the sequence of readings on display; it is newest-first when the
  timestamps do not increase along it.
\<close>

definition feed :: "app \<Rightarrow> reading list" where
  "feed s = items (liveDataContainer s)"

definition newest_first :: "reading list \<Rightarrow> bool" where
  "newest_first rs = sorted_wrt (\<lambda>a b. b \<le> a) (map rd_timestamp rs)"


section \<open>Node statistics and decisions\<close>

definition updateNodeStats :: "node_summary list \<Rightarrow> app \<Rightarrow> app" where
  "updateNodeStats statsArray s =
     (if statsArray = [] then s\<lparr>nodeStatsContainer := [Loading ''No nodes found'']\<rparr>
      else s\<lparr>nodeStatsContainer := map Item statsArray\<rparr>)"

definition updateDecisions :: "decision list \<Rightarrow> app \<Rightarrow> app" where
  "updateDecisions decisionsArray s =
     (if decisionsArray = [] then s\<lparr>decisionsContainer := [Loading ''No decisions available'']\<rparr>
      else s\<lparr>decisionsContainer := map Item decisionsArray\<rparr>)"

definition fetchNodeStats_receive :: "node_summary list response \<Rightarrow> app \<Rightarrow> app" where
  "fetchNodeStats_receive resp s =
     (case fetchAPI_receive resp s of
        (None, s1) \<Rightarrow> s1
      | (Some d, s1) \<Rightarrow> updateNodeStats d s1)"

definition fetchNodeStats :: "node_summary list response \<Rightarrow> app \<Rightarrow> app" where
  "fetchNodeStats resp s = fetchNodeStats_receive resp (fetchAPI_send ''/nodes'' s)"

definition fetchDecisions_receive :: "decision list response \<Rightarrow> app \<Rightarrow> app" where
  "fetchDecisions_receive resp s =
     (case fetchAPI_receive resp s of
        (None, s1) \<Rightarrow> s1
      | (Some d, s1) \<Rightarrow> updateDecisions d s1)"

definition fetchDecisions :: "decision list response \<Rightarrow> app \<Rightarrow> app" where
  "fetchDecisions resp s = fetchDecisions_receive resp (fetchAPI_send ''/decisions'' s)"

section \<open>Map and heat samples\<close>

text \<open>
  JavaScript truthiness of an optional number: \<open>null\<close>, \<open>undefined\<close> and \<open>0\<close> are
  falsy (a JSON number is never NaN).
\<close>

fun truthy :: "real option \<Rightarrow> bool" where
  "truthy None = False"
| "truthy (Some v) = (v \<noteq> 0)"

text \<open>
  The property read \<open>location[`avg_${heatMetric}`]\<close>: the key always starts with
  \<open>avg_\<close>, so only the five averages can answer; any other key is \<open>undefined\<close>.
\<close>

definition location_avg :: "location \<Rightarrow> string \<Rightarrow> real option" where
  "location_avg l heatMetric =
     (if heatMetric = ''temp'' then loc_avg_temp l
      else if heatMetric = ''humidity'' then loc_avg_humidity l
      else if heatMetric = ''soil_moisture'' then loc_avg_soil_moisture l
      else if heatMetric = ''lux'' then loc_avg_lux l
      else if heatMetric = ''voltage'' then loc_avg_voltage l
      else None)"

text \<open>
  One round of the \<open>forEach\<close> of \<open>updateMap\<close>, on the markers and heat points collected
  so far. The marker stands for the Leaflet marker with its popup, both functions of the
  location.
\<close>

definition updateMap_each :: "string \<Rightarrow> location \<Rightarrow> marker list \<times> heat_point list
    \<Rightarrow> marker list \<times> heat_point list" where
  "updateMap_each heatMetric l acc =
     (if \<not> truthy (loc_lat l) \<or> \<not> truthy (loc_lon l) then acc
      else
        let ms = fst acc @ [Marker (loc_lat l) (loc_lon l) l];
            metricValue = location_avg l heatMetric
        in case metricValue of
             None \<Rightarrow> (ms, snd acc)
           | Some v \<Rightarrow> (ms, snd acc @ [(loc_lat l, loc_lon l, v)]))"

definition updateMap_collect :: "string \<Rightarrow> location list \<Rightarrow> marker list \<times> heat_point list" where
  "updateMap_collect heatMetric locations =
     foldl (\<lambda>acc l. updateMap_each heatMetric l acc) ([], []) locations"

definition updateMap :: "location list \<Rightarrow> app \<Rightarrow> app" where
  "updateMap locations s =
     (if locations = [] then s
      else
        let (ms, heatPoints) = updateMap_collect (dom_heatmapMetric s) locations
        in s\<lparr>markers := ms,
             heatLayer := (if FEATURES_heatMap \<and> heatPoints \<noteq> [] then Some heatPoints else None)\<rparr>)"

definition fetchNodeLocations :: "location list response \<Rightarrow> app \<Rightarrow> app" where
  "fetchNodeLocations resp s =
     (case fetchAPI ''/nodes/locations'' resp s of
        (None, s1) \<Rightarrow> s1
      | (Some d, s1) \<Rightarrow> updateMap d s1)"

text \<open>
  The older \<open>updateMap\<close> clears the map first and has no guard: for every node it
  places a marker and then pushes a heat sample, with \<open>0\<close> for an average that is absent
  or not offered by the \<open>switch\<close>, divided by 100. The map library rejects an absent
  coordinate: \<open>L.marker([node.lat, node.lon]).addTo(this.map)\<close> throws
  (\<open>InvalidLatLng\<close>), which ends the \<open>forEach\<close> and \<open>updateMap\<close> before that node's
  heat sample is pushed and before any heat layer is built. \<open>fdiv\<close> is the browser's
  floating-point division.
\<close>

definition or_zero :: "real option \<Rightarrow> real" where
  "or_zero v = (case v of None \<Rightarrow> 0 | Some x \<Rightarrow> x)"

definition intensity_v2 :: "string \<Rightarrow> location \<Rightarrow> real" where
  "intensity_v2 metric node =
     (if metric = ''temperature'' then or_zero (loc_avg_temp node)
      else if metric = ''humidity'' then or_zero (loc_avg_humidity node)
      else if metric = ''soil_moisture'' then or_zero (loc_avg_soil_moisture node)
      else if metric = ''lux'' then or_zero (loc_avg_lux node)
      else 0)"

definition updateMap_each_v2 :: "(real \<Rightarrow> real \<Rightarrow> real) \<Rightarrow> string \<Rightarrow> location
    \<Rightarrow> marker list \<times> heat_point list \<Rightarrow> js_error + marker list \<times> heat_point list" where
  "updateMap_each_v2 fdiv metric node acc =
     (if loc_lat node = None \<or> loc_lon node = None then Inl InvalidLatLng
      else Inr (fst acc @ [Marker (loc_lat node) (loc_lon node) node],
                snd acc @ [(loc_lat node, loc_lon node, fdiv (intensity_v2 metric node) 100)]))"

text \<open>The \<open>forEach\<close>: the markers and heat samples collected, and the exception that
  ended it, if any.\<close>

fun updateMap_collect_v2 :: "(real \<Rightarrow> real \<Rightarrow> real) \<Rightarrow> string \<Rightarrow> location list
    \<Rightarrow> marker list \<times> heat_point list \<Rightarrow> (marker list \<times> heat_point list) \<times> js_error option" where
  "updateMap_collect_v2 fdiv metric [] acc = (acc, None)"
| "updateMap_collect_v2 fdiv metric (node # rest) acc =
     (case updateMap_each_v2 fdiv metric node acc of
        Inl e \<Rightarrow> (acc, Some e)
      | Inr acc1 \<Rightarrow> updateMap_collect_v2 fdiv metric rest acc1)"

definition updateMap_v2 :: "(real \<Rightarrow> real \<Rightarrow> real) \<Rightarrow> location list \<Rightarrow> app \<Rightarrow> app \<times> js_error option" where
  "updateMap_v2 fdiv nodesData s =
     (let s1 = s\<lparr>markers := [], heatLayer := None\<rparr>
      in if nodesData = [] then (s1, None)
         else
           let r = updateMap_collect_v2 fdiv (dom_heatmapMetric s1) nodesData ([], []);
               ms = fst (fst r);
               heatData = snd (fst r)
           in case snd r of
                Some e \<Rightarrow> (s1\<lparr>markers := ms\<rparr>, Some e)
              | None \<Rightarrow>
                  (s1\<lparr>markers := ms,
                      heatLayer := (if FEATURES_heatMap \<and> heatData \<noteq> [] then Some heatData else None)\<rparr>,
                   None))"

section \<open>Series aggregation\<close>

text \<open>
  \<open>nodeData\<close> is a plain object filled key by key: an association list in insertion
  order. Reading a key that the object does not own falls through to
  \<open>Object.prototype\<close>, whose members are truthy and have no \<open>push\<close>.
\<close>

type_synonym nodeData = "(string \<times> point list) list"

definition Object_prototype_keys :: "string list" where
  "Object_prototype_keys =
     [''constructor'', ''__defineGetter__'', ''__defineSetter__'', ''hasOwnProperty'',
      ''__lookupGetter__'', ''__lookupSetter__'', ''isPrototypeOf'', ''propertyIsEnumerable'',
      ''toString'', ''valueOf'', ''__proto__'', ''toLocaleString'']"

definition has_own :: "nodeData \<Rightarrow> string \<Rightarrow> bool" where
  "has_own nodeData k = (k \<in> set (map fst nodeData))"

fun push_point :: "point \<Rightarrow> nodeData \<Rightarrow> nodeData" where
  "push_point p [] = []"
| "push_point p ((k, ps) # rest) =
     (if k = pt_node_id p then (k, ps @ [p]) # rest else (k, ps) # push_point p rest)"

fun group_by_node :: "point list \<Rightarrow> nodeData \<Rightarrow> js_error + nodeData" where
  "group_by_node [] nodeData = Inr nodeData"
| "group_by_node (p # ps) nodeData =
     (let nd1 = (if \<not> (has_own nodeData (pt_node_id p) \<or> pt_node_id p \<in> set Object_prototype_keys)
                 then nodeData @ [(pt_node_id p, [])] else nodeData)
      in if \<not> has_own nd1 (pt_node_id p) then Inl TypeError
         else group_by_node ps (push_point p nd1))"

definition node_points :: "nodeData \<Rightarrow> string \<Rightarrow> point list" where
  "node_points nodeData k = (case map_of nodeData k of Some ps \<Rightarrow> ps | None \<Rightarrow> [])"

text \<open>
  \<open>Object.keys\<close>: the keys that are array indices (canonical decimal numerals below
  \<open>2^32 - 1\<close>) come first, in ascending numeric order, the others follow in insertion
  order.
\<close>

definition is_digit :: "char \<Rightarrow> bool" where
  "is_digit c = (48 \<le> (of_char c :: nat) \<and> (of_char c :: nat) \<le> 57)"

definition digits_value :: "string \<Rightarrow> int" where
  "digits_value k = foldl (\<lambda>n c. 10 * n + (of_char c - 48)) 0 k"

definition is_array_index :: "string \<Rightarrow> bool" where
  "is_array_index k =
     (case k of
        [] \<Rightarrow> False
      | c # cs \<Rightarrow> list_all is_digit k \<and> (c \<noteq> CHR ''0'' \<or> cs = []) \<and> digits_value k < 4294967295)"

definition Object_keys :: "(string \<times> 'v) list \<Rightarrow> string list" where
  "Object_keys obj =
     sort_key digits_value (filter is_array_index (map fst obj))
       @ filter (\<lambda>k. \<not> is_array_index k) (map fst obj)"

text \<open>\<open>[...new Set(xs)]\<close>, and \<open>xs.filter((v, i, a) => a.indexOf(v) === i)\<close>: the distinct
  values in the order of their first occurrence.\<close>

fun set_add_all :: "'a list \<Rightarrow> 'a list \<Rightarrow> 'a list" where
  "set_add_all seen [] = seen"
| "set_add_all seen (x # xs) = set_add_all (if x \<in> set seen then seen else seen @ [x]) xs"

definition unique :: "'a list \<Rightarrow> 'a list" where
  "unique xs = set_add_all [] xs"

text \<open>
  What the browser supplies: the locale's date and time formats (\<open>toLocaleString\<close> and
  \<open>toLocaleTimeString\<close> of the date a timestamp parses to, with the options the code
  passes), the time value of a local date string (\<open>None\<close> for an invalid date), the
  numeric value of a string (\<open>None\<close> for NaN) and the ISO format of a time value.
\<close>

record browser =
  toLocaleString :: "timestamp \<Rightarrow> string"
  toLocaleTimeString :: "timestamp \<Rightarrow> string"
  Date_value :: "string \<Rightarrow> int option"
  toNumber :: "string \<Rightarrow> real option"
  toISOString :: "int \<Rightarrow> string"

definition colorPalette :: "string list" where
  "colorPalette =
     [''rgba(59, 130, 246, 1)'', ''rgba(239, 68, 68, 1)'', ''rgba(16, 185, 129, 1)'',
      ''rgba(245, 158, 11, 1)'', ''rgba(124, 58, 237, 1)'']"

definition nodeColors :: "nodeData \<Rightarrow> (string \<times> string) list" where
  "nodeColors nodeData =
     map (\<lambda>(nodeId, index). (nodeId, colorPalette ! (index mod length colorPalette)))
         (zip (Object_keys nodeData) [0 ..< length (Object_keys nodeData)])"

definition color_of :: "(string \<times> string) list \<Rightarrow> string \<Rightarrow> string" where
  "color_of colors k = (case map_of colors k of Some c \<Rightarrow> c | None \<Rightarrow> ''undefined'')"

text \<open>
  The datasets of one chart: for every key of \<open>nodeData\<close> the metric of that node's
  points, in the order the points arrived. The background colour, tension and fill are
  styling and are left out.
\<close>

definition node_datasets :: "(point \<Rightarrow> real option) \<Rightarrow> nodeData \<Rightarrow> dataset list" where
  "node_datasets metric nodeData =
     map (\<lambda>nodeId. \<lparr> ds_label = nodeId,
                     ds_data = map metric (node_points nodeData nodeId),
                     ds_borderColor = color_of (nodeColors nodeData) nodeId \<rparr>)
         (Object_keys nodeData)"

definition chart_updates :: "browser \<Rightarrow> point list \<Rightarrow> nodeData \<Rightarrow> (string \<times> chart) list" where
  "chart_updates b timeSeriesData nodeData =
     (let labels = unique (map (\<lambda>d. toLocaleString b (pt_timestamp d)) timeSeriesData)
      in [(''soilMoisture'',
             \<lparr>ch_labels = labels, ch_datasets = node_datasets pt_avg_soil_moisture nodeData\<rparr>),
          (''temperature'',
             \<lparr>ch_labels = labels, ch_datasets = node_datasets pt_avg_temp nodeData\<rparr>),
          (''humidity'',
             \<lparr>ch_labels = labels, ch_datasets = node_datasets pt_avg_humidity nodeData\<rparr>),
          (''lux'',
             \<lparr>ch_labels = labels, ch_datasets = node_datasets pt_avg_lux nodeData\<rparr>),
          (''voltage'',
             \<lparr>ch_labels = labels, ch_datasets = node_datasets pt_avg_voltage nodeData\<rparr>)])"

definition updateCharts :: "browser \<Rightarrow> point list \<Rightarrow> app \<Rightarrow> js_error + app" where
  "updateCharts b timeSeriesData s =
     (if timeSeriesData = [] then Inr s
      else case group_by_node timeSeriesData [] of
             Inl e \<Rightarrow> Inl e
           | Inr nodeData \<Rightarrow> Inr (s\<lparr>charts := chart_updates b timeSeriesData nodeData\<rparr>))"

text \<open>
  The older \<open>updateCharts\<close>: three charts; the temperature line takes its colour from
  the node's index in \<open>Object.values(CONFIG.CHART_COLORS)\<close>, the other lines take the
  colour of their metric.
\<close>

definition config_color :: "string \<Rightarrow> string" where
  "config_color k = color_of CHART_COLORS k"

definition tempHumidityDatasets :: "nodeData \<Rightarrow> dataset list" where
  "tempHumidityDatasets nodeData =
     concat (map (\<lambda>(nodeId, index).
        [\<lparr> ds_label = nodeId @ '' - Temp'',
            ds_data = map pt_avg_temp (node_points nodeData nodeId),
            ds_borderColor = map snd CHART_COLORS ! (index mod length CHART_COLORS) \<rparr>,
         \<lparr> ds_label = nodeId @ '' - Humidity'',
            ds_data = map pt_avg_humidity (node_points nodeData nodeId),
            ds_borderColor = config_color ''humidity'' \<rparr>])
       (zip (Object_keys nodeData) [0 ..< length (Object_keys nodeData)]))"

definition soilSunDatasets :: "nodeData \<Rightarrow> dataset list" where
  "soilSunDatasets nodeData =
     concat (map (\<lambda>nodeId.
        [\<lparr> ds_label = nodeId @ '' - Soil Moisture'',
            ds_data = map pt_avg_soil_moisture (node_points nodeData nodeId),
            ds_borderColor = config_color ''soil_moisture'' \<rparr>,
         \<lparr> ds_label = nodeId @ '' - Light'',
            ds_data = map pt_avg_lux (node_points nodeData nodeId),
            ds_borderColor = config_color ''lux'' \<rparr>])
       (Object_keys nodeData))"

definition voltageDatasets :: "nodeData \<Rightarrow> dataset list" where
  "voltageDatasets nodeData =
     map (\<lambda>nodeId.
        \<lparr> ds_label = nodeId @ '' - Voltage'',
           ds_data = map pt_avg_voltage (node_points nodeData nodeId),
           ds_borderColor = config_color ''voltage'' \<rparr>)
       (Object_keys nodeData)"

definition chart_updates_v2 :: "browser \<Rightarrow> point list \<Rightarrow> nodeData \<Rightarrow> (string \<times> chart) list" where
  "chart_updates_v2 b timeSeriesData nodeData =
     (let labels = unique (map (\<lambda>d. toLocaleTimeString b (pt_timestamp d)) timeSeriesData)
      in [(''tempHumidity'', \<lparr>ch_labels = labels, ch_datasets = tempHumidityDatasets nodeData\<rparr>),
          (''soilSun'', \<lparr>ch_labels = labels, ch_datasets = soilSunDatasets nodeData\<rparr>),
          (''battery'', \<lparr>ch_labels = labels, ch_datasets = voltageDatasets nodeData\<rparr>)])"

definition updateCharts_v2 :: "browser \<Rightarrow> point list \<Rightarrow> app \<Rightarrow> js_error + app" where
  "updateCharts_v2 b timeSeriesData s =
     (if timeSeriesData = [] then Inr s
      else case group_by_node timeSeriesData [] of
             Inl e \<Rightarrow> Inl e
           | Inr nodeData \<Rightarrow> Inr (s\<lparr>charts := chart_updates_v2 b timeSeriesData nodeData\<rparr>))"

section \<open>Time window and time-series fetch\<close>

text \<open>
  The test \<open>this.isCustomRange && this.customTimeRange.start && this.customTimeRange.end\<close>,
  which \<open>fetchTimeSeriesData\<close> and \<open>downloadCSV\<close> share: the confirmed range, if there is
  one (\<open>null\<close> and the empty string are falsy).
\<close>

definition confirmed_range :: "app \<Rightarrow> (string \<times> string) option" where
  "confirmed_range s =
     (case (customTimeRange_start s, customTimeRange_end s) of
        (Some st, Some en) \<Rightarrow> (if isCustomRange s \<and> st \<noteq> [] \<and> en \<noteq> [] then Some (st, en) else None)
      | _ \<Rightarrow> None)"

definition hex_digit :: "nat \<Rightarrow> char" where
  "hex_digit n = ''0123456789ABCDEF'' ! (n mod 16)"

definition percent_byte :: "char \<Rightarrow> string" where
  "percent_byte c = [CHR ''%'', hex_digit (of_char c div 16), hex_digit (of_char c mod 16)]"

definition is_alnum :: "char \<Rightarrow> bool" where
  "is_alnum c =
     (let n = (of_char c :: nat)
      in (48 \<le> n \<and> n \<le> 57) \<or> (65 \<le> n \<and> n \<le> 90) \<or> (97 \<le> n \<and> n \<le> 122))"

text \<open>\<open>encodeURIComponent\<close> on the bytes of the UTF-8 text: letters, digits and
  \<open>- _ . ! ~ * ' ( )\<close> stay, every other byte is percent-encoded.\<close>

definition encodeURIComponent :: "string \<Rightarrow> string" where
  "encodeURIComponent str =
     concat (map (\<lambda>c. if is_alnum c \<or> c \<in> set ''-_.!~*()'' \<or> c = CHR 0x27 then [c]
                       else percent_byte c) str)"

text \<open>\<open>URLSearchParams.toString\<close>: the form-urlencoded serialisation; letters, digits
  and \<open>* - . _\<close> stay, a space becomes \<open>+\<close>, every other byte is percent-encoded.\<close>

definition form_encode :: "string \<Rightarrow> string" where
  "form_encode str =
     concat (map (\<lambda>c. if is_alnum c \<or> c \<in> set ''*-._'' then [c]
                       else if c = CHR '' '' then ''+''
                       else percent_byte c) str)"

fun params_toString :: "(string \<times> string) list \<Rightarrow> string" where
  "params_toString [] = []"
| "params_toString [(k, v)] = form_encode k @ ''='' @ form_encode v"
| "params_toString ((k, v) # rest) = form_encode k @ ''='' @ form_encode v @ ''&'' @ params_toString rest"

text \<open>The endpoint \<open>fetchTimeSeriesData\<close> asks for; \<open>None\<close> is its early return.\<close>

definition timeSeries_endpoint :: "app \<Rightarrow> string option" where
  "timeSeries_endpoint s =
     (case confirmed_range s of
        Some (st, en) \<Rightarrow>
          Some (''/timeseries?start='' @ encodeURIComponent (st @ '':00'')
                  @ ''&end='' @ encodeURIComponent (en @ '':00''))
      | None \<Rightarrow>
          (let hours = dom_timeRange s
           in if hours = ''custom'' then None else Some (''/timeseries?hours='' @ hours)))"

text \<open>
  The part of \<open>fetchTimeSeriesData\<close> after the response: the state, and the exception
  \<open>updateCharts\<close> threw, if any (the promise then rejects).
\<close>

definition fetchTimeSeriesData_receive :: "browser \<Rightarrow> point list response \<Rightarrow> app
    \<Rightarrow> app \<times> js_error option" where
  "fetchTimeSeriesData_receive b resp s =
     (case fetchAPI_receive resp s of
        (None, s1) \<Rightarrow> (s1, None)
      | (Some d, s1) \<Rightarrow>
          (case updateCharts b d s1 of Inl e \<Rightarrow> (s1, Some e) | Inr s2 \<Rightarrow> (s2, None)))"

definition fetchTimeSeriesData :: "browser \<Rightarrow> point list response \<Rightarrow> app \<Rightarrow> app \<times> js_error option" where
  "fetchTimeSeriesData b resp s =
     (case timeSeries_endpoint s of
        None \<Rightarrow> (s, None)
      | Some endpoint \<Rightarrow> fetchTimeSeriesData_receive b resp (fetchAPI_send endpoint s))"

definition fetchTimeSeriesData_v2 :: "browser \<Rightarrow> point list response \<Rightarrow> app \<Rightarrow> app \<times> js_error option" where
  "fetchTimeSeriesData_v2 b resp s =
     (case fetchAPI (''/timeseries?hours='' @ dom_timeRange s) resp s of
        (None, s1) \<Rightarrow> (s1, None)
      | (Some d, s1) \<Rightarrow>
          (case updateCharts_v2 b d s1 of Inl e \<Rightarrow> (s1, Some e) | Inr s2 \<Rightarrow> (s2, None)))"

text \<open>A rejection nobody awaits, or an exception leaving a handler, is only reported.\<close>

definition unhandled :: "app \<times> js_error option \<Rightarrow> app" where
  "unhandled r = (case snd r of None \<Rightarrow> fst r | Some e \<Rightarrow> (fst r)\<lparr>uncaught := uncaught (fst r) @ [e]\<rparr>)"

section \<open>Fetching everything\<close>

text \<open>
  \<open>fetchAllData\<close>: the five requests leave in the order written; each response changes
  its own part of the state and, on failure, the connection flag. When all five promises
  have resolved the flag is set; when the time-series one rejects, \<open>Promise.all\<close> rejects
  and the flag is not set.
\<close>

record responses =
  r_live :: "reading list response"
  r_stats :: "node_summary list response"
  r_decisions :: "decision list response"
  r_locations :: "location list response"
  r_series :: "point list response"

definition fetchAllData :: "browser \<Rightarrow> responses \<Rightarrow> app \<Rightarrow> app \<times> js_error option" where
  "fetchAllData b rs s =
     (let s1 = fetchLiveData (r_live rs) s;
          s2 = fetchNodeStats (r_stats rs) s1;
          s3 = fetchDecisions (r_decisions rs) s2;
          s4 = fetchNodeLocations (r_locations rs) s3;
          (s5, e) = fetchTimeSeriesData b (r_series rs) s4
      in case e of
           None \<Rightarrow> (updateConnectionStatus True s5, None)
         | Some err \<Rightarrow> (s5, Some err))"

section \<open>Push stream\<close>

text \<open>
  The \<open>onmessage\<close> handler of the current version, on the result of
  \<open>JSON.parse(event.data)\<close> (\<open>None\<close> when it throws). A message that parses starts the
  time-series fetch, sets the flag, and the response is handled when it arrives; one that
  does not parse is caught and logged as a keepalive.
\<close>

definition onmessage :: "browser \<Rightarrow> 'j option \<Rightarrow> point list response \<Rightarrow> app \<Rightarrow> app" where
  "onmessage b parsed resp s =
     (case parsed of
        None \<Rightarrow> s
      | Some d \<Rightarrow>
          (case timeSeries_endpoint s of
             None \<Rightarrow> updateConnectionStatus True s
           | Some endpoint \<Rightarrow>
               unhandled (fetchTimeSeriesData_receive b resp
                            (updateConnectionStatus True (fetchAPI_send endpoint s)))))"

definition onerror :: "app \<Rightarrow> app" where
  "onerror s = updateConnectionStatus False s"

text \<open>
  The older handler has no \<open>try\<close>: a message that does not parse throws out of the
  handler. One that parses is added to the live feed, the node statistics and the decisions
  are fetched, and the flag is set before their responses arrive.
\<close>

definition handleRealtimeUpdate_send :: "reading \<Rightarrow> app \<Rightarrow> app" where
  "handleRealtimeUpdate_send d s =
     fetchAPI_send ''/decisions'' (fetchAPI_send ''/nodes'' (addToLiveDataFeed d s))"

definition onmessage_v2 :: "reading option \<Rightarrow> node_summary list response \<Rightarrow> decision list response
    \<Rightarrow> app \<Rightarrow> app" where
  "onmessage_v2 parsed resp_stats resp_decisions s =
     (case parsed of
        None \<Rightarrow> unhandled (s, Some SyntaxError)
      | Some d \<Rightarrow>
          fetchDecisions_receive resp_decisions
            (fetchNodeStats_receive resp_stats
               (updateConnectionStatus True (handleRealtimeUpdate_send d s))))"

section \<open>Event listeners\<close>

text \<open>The \<open>change\<close> listener of the time range selector, after the selector took \<open>v\<close>.\<close>

definition timeRange_change :: "browser \<Rightarrow> string \<Rightarrow> point list response \<Rightarrow> app \<Rightarrow> app" where
  "timeRange_change b v resp s =
     (let s0 = s\<lparr>dom_timeRange := v\<rparr>
      in if v = ''custom''
         then s0\<lparr>dom_customRangeControls := ''flex'', isCustomRange := True\<rparr>
         else unhandled (fetchTimeSeriesData b resp
                (s0\<lparr>dom_customRangeControls := ''none'', isCustomRange := False\<rparr>)))"



section \<open>CSV export\<close>

text \<open>
  \<open>new Date(x)\<close> for a number: the time value is \<open>x\<close> cut to an integer, invalid when
  \<open>x\<close> is NaN or beyond 8.64e15 ms; \<open>toISOString\<close> of an invalid date throws.
\<close>

definition time_clip :: "real option \<Rightarrow> int option" where
  "time_clip x =
     (case x of
        None \<Rightarrow> None
      | Some v \<Rightarrow> if \<bar>v\<bar> > 8640000000000000 then None
                  else Some (if v \<ge> 0 then \<lfloor>v\<rfloor> else \<lceil>v\<rceil>))"

text \<open>
  The query parameters of the export, with the two clock readings the preset branch
  takes (\<open>new Date()\<close> for the end, \<open>Date.now()\<close> for the start).
\<close>

definition export_params :: "browser \<Rightarrow> int \<Rightarrow> int \<Rightarrow> app \<Rightarrow> js_error + (string \<times> string) list" where
  "export_params b now_end now_start s =
     (case confirmed_range s of
        Some (st, en) \<Rightarrow> Inr [(''start'', st @ '':00''), (''end'', en @ '':00'')]
      | None \<Rightarrow>
          (let hours = dom_timeRange s
           in if hours \<noteq> ''custom''
              then (let endv = toISOString b now_end
                    in case time_clip (map_option (\<lambda>h. real_of_int now_start - h * 60 * 60 * 1000)
                                         (toNumber b hours)) of
                         None \<Rightarrow> Inl RangeError
                       | Some t \<Rightarrow> Inr [(''start'', toISOString b t), (''end'', endv)])
              else Inr []))"

definition export_url :: "(string \<times> string) list \<Rightarrow> string" where
  "export_url params =
     (let url = API_BASE_URL @ ''/api/export/csv''
      in if params_toString params \<noteq> [] then url @ ''?'' @ params_toString params else url)"

text \<open>
  \<open>downloadCSV\<close>, called from the click listener and not awaited. \<open>resp\<close> is the answer
  to the export request, its body the blob; \<open>now_name\<close> is the clock when the file is
  named.
\<close>

definition downloadCSV :: "browser \<Rightarrow> int \<Rightarrow> int \<Rightarrow> int \<Rightarrow> string response \<Rightarrow> app \<Rightarrow> app" where
  "downloadCSV b now_end now_start now_name resp s =
     (case export_params b now_end now_start s of
        Inl e \<Rightarrow> unhandled (s, Some e)
      | Inr params \<Rightarrow>
          (let s1 = s\<lparr>requests := requests s @ [export_url params]\<rparr>;
               failed = s1\<lparr>alerts := alerts s1 @ [''Failed to download CSV. Please try again.'']\<rparr>
           in case resp of
                NetworkError \<Rightarrow> failed
              | Http status body \<Rightarrow>
                  (if \<not> response_ok status then failed
                   else case body of
                          None \<Rightarrow> failed
                        | Some blob \<Rightarrow>
                            s1\<lparr>downloads := downloads s1 @
                                 [(''sensor_data_'' @ take 10 (toISOString b now_name) @ ''.csv'', blob)]\<rparr>)))"

section \<open>A sample browser and sample data\<close>

text \<open>
  For the examples: a browser whose local time zone is UTC. Its date formats keep the
  timestamp's own digits down to the minute; its dates follow the proleptic Gregorian
  calendar.
\<close>

definition days_from_civil :: "int \<Rightarrow> int \<Rightarrow> int \<Rightarrow> int" where
  "days_from_civil y m d =
     (let y1 = (if m \<le> 2 then y - 1 else y);
          era = y1 div 400;
          yoe = y1 - era * 400;
          doy = (153 * (if m > 2 then m - 3 else m + 9) + 2) div 5 + d - 1;
          doe = yoe * 365 + yoe div 4 - yoe div 100 + doy
      in era * 146097 + doe - 719468)"

definition civil_from_days :: "int \<Rightarrow> int \<times> int \<times> int" where
  "civil_from_days z =
     (let z1 = z + 719468;
          era = z1 div 146097;
          doe = z1 - era * 146097;
          yoe = (doe - doe div 1460 + doe div 36524 - doe div 146096) div 365;
          doy = doe - (365 * yoe + yoe div 4 - yoe div 100);
          mp = (5 * doy + 2) div 153;
          d = doy - (153 * mp + 2) div 5 + 1;
          m = (if mp < 10 then mp + 3 else mp - 9)
      in ((if m \<le> 2 then yoe + era * 400 + 1 else yoe + era * 400), m, d))"

definition digit_char :: "nat \<Rightarrow> char" where
  "digit_char n = char_of (48 + n mod 10)"

definition pad2 :: "nat \<Rightarrow> string" where
  "pad2 n = [digit_char (n div 10), digit_char n]"

definition pad3 :: "nat \<Rightarrow> string" where
  "pad3 n = [digit_char (n div 100), digit_char (n div 10), digit_char n]"

definition pad4 :: "nat \<Rightarrow> string" where
  "pad4 n = [digit_char (n div 1000), digit_char (n div 100), digit_char (n div 10), digit_char n]"

definition utc_toISOString :: "int \<Rightarrow> string" where
  "utc_toISOString t =
     (let (y, m, d) = civil_from_days (t div 86400000);
          ms = nat (t mod 86400000)
      in pad4 (nat y) @ ''-'' @ pad2 (nat m) @ ''-'' @ pad2 (nat d) @ ''T''
           @ pad2 (ms div 3600000) @ '':'' @ pad2 (ms div 60000 mod 60) @ '':''
           @ pad2 (ms div 1000 mod 60) @ ''.'' @ pad3 (ms mod 1000) @ ''Z'')"

definition utc_Date_value :: "string \<Rightarrow> int option" where
  "utc_Date_value str =
     (if length str = 16
         \<and> list_all is_digit (take 4 str @ take 2 (drop 5 str) @ take 2 (drop 8 str)
                               @ take 2 (drop 11 str) @ take 2 (drop 14 str))
         \<and> [str ! 4, str ! 7, str ! 10, str ! 13] = ''--T:''
      then
        (let y = digits_value (take 4 str);
             m = digits_value (take 2 (drop 5 str));
             d = digits_value (take 2 (drop 8 str));
             h = digits_value (take 2 (drop 11 str));
             mi = digits_value (take 2 (drop 14 str))
         in if 1 \<le> m \<and> m \<le> 12 \<and> 1 \<le> d \<and> d \<le> 31 \<and> h < 24 \<and> mi < 60
            then Some ((days_from_civil y m d * 1440 + h * 60 + mi) * 60000)
            else None)
      else None)"

definition utc_toNumber :: "string \<Rightarrow> real option" where
  "utc_toNumber str = (if list_all is_digit str then Some (real_of_int (digits_value str)) else None)"

definition utc_browser :: browser where
  "utc_browser =
     \<lparr> toLocaleString = take 16,
       toLocaleTimeString = (\<lambda>ts. take 5 (drop 11 ts)),
       Date_value = utc_Date_value,
       toNumber = utc_toNumber,
       toISOString = utc_toISOString \<rparr>"

definition reading_at :: "string \<Rightarrow> timestamp \<Rightarrow> reading" where
  "reading_at n ts =
     \<lparr> rd_node_id = n, rd_timestamp = ts, rd_temperature = Some 21.5,
       rd_relative_humidity = Some 40, rd_soil_moisture = Some 33, rd_lux = None,
       rd_voltage = Some 3.9 \<rparr>"

definition point_at :: "string \<Rightarrow> timestamp \<Rightarrow> real \<Rightarrow> point" where
  "point_at n ts v =
     \<lparr> pt_node_id = n, pt_timestamp = ts, pt_avg_temp = Some v, pt_avg_humidity = Some 40,
       pt_avg_soil_moisture = Some 33, pt_avg_lux = None, pt_avg_voltage = Some 3.9 \<rparr>"

definition location_at :: "string \<Rightarrow> real option \<Rightarrow> real option \<Rightarrow> real option \<Rightarrow> location" where
  "location_at n la lo temp =
     \<lparr> loc_node_id = n, loc_name = None, loc_lat = la, loc_lon = lo, loc_avg_temp = temp,
       loc_avg_humidity = Some 40, loc_avg_soil_moisture = Some 33, loc_avg_lux = None,
       loc_avg_voltage = Some 3.9 \<rparr>"

text \<open>The page as it loads: 24 hours selected, the temperature heat map, an empty feed.\<close>

definition page :: app where
  "page = constructor ''24'' ''temp'' []"

text \<open>The sample browser's division; the examples divide only \<open>0\<close> by \<open>100\<close>, where the
  floating-point quotient is the exact one.\<close>

definition sample_divide :: "real \<Rightarrow> real \<Rightarrow> real" where
  "sample_divide x y = x / y"

definition ok :: "'a \<Rightarrow> 'a response" where
  "ok d = Http 200 (Some d)"

section \<open>Observations\<close>

text \<open>
  A response counts as a success when \<open>fetchAPI\<close> returns its payload: the status is
  in the 2xx range and the body could be read.
\<close>

fun succeeded :: "'a response \<Rightarrow> bool" where
  "succeeded NetworkError = False"
| "succeeded (Http status body) = (response_ok status \<and> body \<noteq> None)"

text \<open>The connection flag after each of a sequence of calls of \<open>fetchAPI\<close>.\<close>

fun observed :: "string \<Rightarrow> 'a response list \<Rightarrow> app \<Rightarrow> bool list" where
  "observed endpoint [] s = []"
| "observed endpoint (r # rs) s =
     isConnected (snd (fetchAPI endpoint r s)) # observed endpoint rs (snd (fetchAPI endpoint r s))"

text \<open>
  The metric values of one node's own points, in the order of the input, and the order
  in which the nodes appear in the datasets.
\<close>

definition node_series :: "(point \<Rightarrow> real option) \<Rightarrow> string \<Rightarrow> point list \<Rightarrow> real option list" where
  "node_series metric k timeSeriesData = map metric (filter (\<lambda>p. pt_node_id p = k) timeSeriesData)"

definition node_order :: "point list \<Rightarrow> string list" where
  "node_order timeSeriesData = Object_keys (map (\<lambda>k. (k, ())) (unique (map pt_node_id timeSeriesData)))"

text \<open>
  What a chart shows, dataset by dataset (label and values), and the same for the chart of
  a given name after an update (\<open>None\<close> when the update threw or no such chart exists).
\<close>

definition dataset_table :: "chart \<Rightarrow> (string \<times> real option list) list" where
  "dataset_table c = map (\<lambda>ds. (ds_label ds, ds_data ds)) (ch_datasets c)"

definition series_table :: "(point \<Rightarrow> real option) \<Rightarrow> point list \<Rightarrow> (string \<times> real option list) list" where
  "series_table metric timeSeriesData =
     map (\<lambda>k. (k, node_series metric k timeSeriesData)) (node_order timeSeriesData)"

definition shown_series :: "js_error + app \<Rightarrow> string
    \<Rightarrow> (string list \<times> (string \<times> real option list) list) option" where
  "shown_series r name =
     (case r of
        Inl e \<Rightarrow> None
      | Inr s \<Rightarrow> map_option (\<lambda>c. (ch_labels c, dataset_table c)) (map_of (charts s) name))"

text \<open>Three points: node-a reports at 10:00 and 11:00, node-b only at 11:00.\<close>

definition sample_points :: "point list" where
  "sample_points =
     [point_at ''node-a'' ''2024-01-01T10:00:00'' 20,
      point_at ''node-a'' ''2024-01-01T11:00:00'' 21,
      point_at ''node-b'' ''2024-01-01T11:00:00'' 19]"

definition sample_nodeData :: nodeData where
  "sample_nodeData = [(''node-a'', take 2 sample_points), (''node-b'', drop 2 sample_points)]"

section \<open>Properties of the live feed\<close>

text \<open>The eviction loop keeps the first ten children.\<close>

lemma keep_latest_take: "keep_latest xs = take 10 xs"
proof (induction xs rule: keep_latest.induct)
  case (1 children)
  show ?case
  proof (cases "length children > 10")
    case True
    then have "keep_latest children = take 10 (butlast children)"
      using 1 keep_latest.simps [of children] by simp
    also have "\<dots> = take 10 children"
      using True by (simp add: butlast_conv_take)
    finally show ?thesis .
  next
    case False
    then show ?thesis using keep_latest.simps [of children] by simp
  qed
qed

lemma items_map_Item: "items (map Item xs) = xs"
  by (induction xs) simp_all

lemma items_remove_loading: "items (remove_loading es) = items es"
  by (induction es rule: items.induct) simp_all

lemma length_items_le: "length (items es) \<le> length es"
  by (induction es rule: items.induct) simp_all

lemma items_append: "items (xs @ ys) = items xs @ items ys"
  by (induction xs rule: items.induct) simp_all

lemma items_take_prefix: "\<exists>n. items (take k es) = take n (items es)"
proof -
  have "es = take k es @ drop k es" by simp
  then have "items es = items (take k es) @ items (drop k es)"
    by (metis items_append)
  then have "items (take k es) = take (length (items (take k es))) (items es)" by simp
  then show ?thesis ..
qed

lemma newest_first_take: "newest_first rs \<Longrightarrow> newest_first (take n rs)"
  unfolding newest_first_def by (simp add: take_map [symmetric] sorted_wrt_take)

lemma fetchAPI_ok [simp]:
  "response_ok status \<Longrightarrow> fetchAPI e (Http status (Some d)) s = (Some d, fetchAPI_send e s)"
  by (simp add: fetchAPI_def)

lemma fetchLiveData_container:
  assumes "response_ok status"
  shows "liveDataContainer (fetchLiveData (Http status (Some B)) s) =
           (case B of [] \<Rightarrow> [Loading ''No data available'']
            | d0 # _ \<Rightarrow> if lastLiveDataTimestamp s = Some (rd_timestamp d0)
                         then liveDataContainer s else map Item (take 10 B))"
  using assms
  by (cases B) (auto simp: fetchLiveData_def fetchAPI_send_def updateLiveDataFeed_def
      simp del: take_Cons_numeral)

lemma fetchLiveData_last:
  assumes "response_ok status"
  shows "lastLiveDataTimestamp (fetchLiveData (Http status (Some B)) s) =
           (case B of [] \<Rightarrow> lastLiveDataTimestamp s | d0 # _ \<Rightarrow> Some (rd_timestamp d0))"
  using assms
  by (cases B) (auto simp: fetchLiveData_def fetchAPI_send_def updateLiveDataFeed_def)

text \<open>
  C1 (as the code has it). For every batch \<open>B\<close> a successful fetch delivers under the
  replace-on-change policy: if \<open>B\<close> is empty the feed is cleared and the remembered newest
  timestamp is kept; if \<open>B\<close> is not empty and the timestamp of its first element equals
  the remembered newest timestamp, the feed is left as it is, even when it is empty; if
  that timestamp differs, or none is remembered yet, the feed becomes the first ten entries
  of \<open>B\<close> and the timestamp is remembered.
\<close>

theorem fetchLiveData_replace_on_change:
  assumes "response_ok status"
  shows "feed (fetchLiveData (Http status (Some B)) s) =
           (case B of [] \<Rightarrow> []
            | d0 # _ \<Rightarrow> if lastLiveDataTimestamp s = Some (rd_timestamp d0) then feed s else take 10 B)
       \<and> lastLiveDataTimestamp (fetchLiveData (Http status (Some B)) s) =
           (case B of [] \<Rightarrow> lastLiveDataTimestamp s | d0 # _ \<Rightarrow> Some (rd_timestamp d0))"
  using fetchLiveData_container [OF assms, of B s] fetchLiveData_last [OF assms, of B s]
  by (cases B) (simp_all add: feed_def items_map_Item del: take_Cons_numeral)

theorem fetchLiveData_replace_on_change_witness:
  "response_ok 200
   \<and> feed (fetchLiveData (Http 200 (Some [reading_at ''node-1'' ''2024-01-01T10:00:00''])) page)
       = [reading_at ''node-1'' ''2024-01-01T10:00:00'']
   \<and> lastLiveDataTimestamp
        (fetchLiveData (Http 200 (Some [reading_at ''node-1'' ''2024-01-01T10:00:00''])) page)
       = Some ''2024-01-01T10:00:00''"
proof -
  have ok: "response_ok 200" by (simp add: response_ok_def)
  show ?thesis
    using ok fetchLiveData_replace_on_change [OF ok, of "[reading_at ''node-1'' ''2024-01-01T10:00:00'']" page]
    by (simp add: page_def constructor_def reading_at_def)
qed

text \<open>
  The third case of C1 as the specification words it ("or the buffer was empty") fails:
  after a batch with newest timestamp 10:00:00 and a clearing empty batch, the feed is
  empty, and the same batch again does not replace it.
\<close>

theorem cleared_feed_not_restored:
  "feed (fetchLiveData (ok []) (fetchLiveData (ok [reading_at ''node-1'' ''2024-01-01T10:00:00'']) page)) = []
   \<and> feed (fetchLiveData (ok [reading_at ''node-1'' ''2024-01-01T10:00:00''])
        (fetchLiveData (ok []) (fetchLiveData (ok [reading_at ''node-1'' ''2024-01-01T10:00:00'']) page)))
       \<noteq> [reading_at ''node-1'' ''2024-01-01T10:00:00'']"
  by (simp add: ok_def response_ok_def fetchLiveData_def fetchAPI_def fetchAPI_send_def
      updateLiveDataFeed_def feed_def page_def constructor_def reading_at_def)

text \<open>
  C9. Clearing the feed with an empty batch does not reset the remembered newest
  timestamp: after a non-empty batch with newest timestamp \<open>T\<close> and an empty batch, a
  non-empty batch whose newest timestamp is \<open>T\<close> is skipped and the feed stays cleared.
\<close>

theorem clear_keeps_remembered_timestamp:
  assumes "response_ok st1" and "response_ok st2" and "response_ok st3"
    and "rd_timestamp d1 = T" and "rd_timestamp d2 = T"
  shows "let s1 = fetchLiveData (Http st1 (Some (d1 # B1))) s;
             s2 = fetchLiveData (Http st2 (Some [])) s1;
             s3 = fetchLiveData (Http st3 (Some (d2 # B2))) s2
         in lastLiveDataTimestamp s1 = Some T
            \<and> feed s2 = [] \<and> lastLiveDataTimestamp s2 = Some T
            \<and> liveDataContainer s3 = liveDataContainer s2 \<and> feed s3 = []"
  using assms
  by (simp add: Let_def fetchLiveData_container fetchLiveData_last feed_def del: take_Cons_numeral)

theorem clear_keeps_remembered_timestamp_witness:
  "response_ok 200
   \<and> rd_timestamp (reading_at ''node-1'' ''2024-01-01T10:00:00'') = ''2024-01-01T10:00:00''
   \<and> rd_timestamp (reading_at ''node-2'' ''2024-01-01T10:00:00'') = ''2024-01-01T10:00:00''
   \<and> feed (fetchLiveData (Http 200 (Some [reading_at ''node-1'' ''2024-01-01T10:00:00''])) page)
        = [reading_at ''node-1'' ''2024-01-01T10:00:00'']
   \<and> feed (fetchLiveData (Http 200 (Some [reading_at ''node-2'' ''2024-01-01T10:00:00'']))
        (fetchLiveData (Http 200 (Some []))
          (fetchLiveData (Http 200 (Some [reading_at ''node-1'' ''2024-01-01T10:00:00''])) page))) = []"
proof -
  have ok: "response_ok 200" by (simp add: response_ok_def)
  have t1: "rd_timestamp (reading_at ''node-1'' ''2024-01-01T10:00:00'') = ''2024-01-01T10:00:00''"
    and t2: "rd_timestamp (reading_at ''node-2'' ''2024-01-01T10:00:00'') = ''2024-01-01T10:00:00''"
    by (simp_all add: reading_at_def)
  have shown: "feed (fetchLiveData (Http 200 (Some [reading_at ''node-1'' ''2024-01-01T10:00:00''])) page)
        = [reading_at ''node-1'' ''2024-01-01T10:00:00'']"
    by (simp add: response_ok_def fetchLiveData_def fetchAPI_def fetchAPI_send_def
        updateLiveDataFeed_def feed_def page_def constructor_def)
  show ?thesis
    using ok t1 t2 shown clear_keeps_remembered_timestamp [OF ok ok ok t1 t2, of "[]" page "[]"]
    by (simp add: Let_def)
qed

text \<open>
  C8 (as the code has it). After \<open>updateLiveDataFeed\<close> the feed is the first ten entries
  of the batch, in the batch's order; after \<open>addToLiveDataFeed\<close> it is the pushed reading
  followed by a prefix of the previous feed. Either way it holds at most ten entries, and it
  is newest-first whenever the batch was, respectively whenever the previous feed preceded
  by the pushed reading was. Neither operation sorts.
\<close>

theorem feed_bounded_in_arrival_order:
  "length (feed (updateLiveDataFeed B s)) \<le> 10
   \<and> feed (updateLiveDataFeed B s) = take 10 B
   \<and> (newest_first B \<longrightarrow> newest_first (feed (updateLiveDataFeed B s)))
   \<and> length (feed (addToLiveDataFeed d s)) \<le> 10
   \<and> (\<exists>n. feed (addToLiveDataFeed d s) = d # take n (feed s))
   \<and> (newest_first (d # feed s) \<longrightarrow> newest_first (feed (addToLiveDataFeed d s)))"
proof -
  have replace: "feed (updateLiveDataFeed B s) = take 10 B"
    by (simp add: feed_def updateLiveDataFeed_def items_map_Item)
  have container: "liveDataContainer (addToLiveDataFeed d s)
      = Item d # take 9 (remove_loading (liveDataContainer s))"
    by (simp add: addToLiveDataFeed_def keep_latest_take)
  obtain n where n: "items (take 9 (remove_loading (liveDataContainer s)))
      = take n (items (remove_loading (liveDataContainer s)))"
    using items_take_prefix by blast
  have prepend: "feed (addToLiveDataFeed d s) = d # take n (feed s)"
    by (simp add: feed_def container n items_remove_loading)
  have "length (items (take 9 (remove_loading (liveDataContainer s)))) \<le> 9"
    using length_items_le [of "take 9 (remove_loading (liveDataContainer s))"] by simp
  then have bound: "length (feed (addToLiveDataFeed d s)) \<le> 10"
    by (simp add: feed_def container)
  have order: "newest_first (d # feed s) \<longrightarrow> newest_first (feed (addToLiveDataFeed d s))"
    using newest_first_take [of "d # feed s" "Suc n"] by (simp add: prepend)
  show ?thesis
    using replace prepend bound order newest_first_take [of B 10] by auto
qed

theorem feed_bounded_in_arrival_order_witness:
  "newest_first [reading_at ''node-1'' ''2024-01-01T10:05:00'', reading_at ''node-2'' ''2024-01-01T10:00:00'']
   \<and> newest_first (feed (updateLiveDataFeed
         [reading_at ''node-1'' ''2024-01-01T10:05:00'', reading_at ''node-2'' ''2024-01-01T10:00:00''] page))
   \<and> newest_first (reading_at ''node-1'' ''2024-01-01T10:05:00'' # feed page)
   \<and> newest_first (feed (addToLiveDataFeed (reading_at ''node-1'' ''2024-01-01T10:05:00'') page))"
proof -
  have batch: "newest_first [reading_at ''node-1'' ''2024-01-01T10:05:00'',
      reading_at ''node-2'' ''2024-01-01T10:00:00'']"
    by (simp add: newest_first_def reading_at_def)
  have push: "newest_first (reading_at ''node-1'' ''2024-01-01T10:05:00'' # feed page)"
    by (simp add: newest_first_def feed_def page_def constructor_def)
  show ?thesis
    using batch push
      feed_bounded_in_arrival_order [of
        "[reading_at ''node-1'' ''2024-01-01T10:05:00'', reading_at ''node-2'' ''2024-01-01T10:00:00'']"
        page "reading_at ''node-1'' ''2024-01-01T10:05:00''"]
    by blast
qed

text \<open>
  The ordering part of C8 fails when the stream delivers an older reading after a newer
  one: the older reading is placed first.
\<close>

theorem older_reading_pushed_first:
  "\<not> newest_first (feed (addToLiveDataFeed (reading_at ''node-2'' ''2024-01-01T10:00:00'')
        (addToLiveDataFeed (reading_at ''node-1'' ''2024-01-01T10:05:00'') page)))"
  by (simp add: addToLiveDataFeed_def keep_latest_take feed_def page_def constructor_def
      newest_first_def reading_at_def)

section \<open>Properties of the connection state\<close>

lemma fetchAPI_isConnected:
  "isConnected (snd (fetchAPI e r s)) = (succeeded r \<and> isConnected s)"
  by (cases r) (auto simp: fetchAPI_def fetchAPI_send_def updateConnectionStatus_def split: option.splits)

text \<open>
  C2 (as the code has it). \<open>fetchAPI\<close> maps every failure to Disconnected and leaves the
  state as it is on success; a push-stream error event gives Disconnected. So the outcome
  sequence fail, success, fail is observed as Disconnected, Disconnected, Disconnected.
\<close>

theorem failure_disconnects_success_keeps:
  "isConnected (snd (fetchAPI e r s)) = (succeeded r \<and> isConnected s)
   \<and> isConnected (onerror s) = False
   \<and> (\<not> succeeded r1 \<and> succeeded r2 \<and> \<not> succeeded r3
        \<longrightarrow> observed e [r1, r2, r3] s = [False, False, False])"
  by (simp add: fetchAPI_isConnected onerror_def updateConnectionStatus_def)

theorem failure_disconnects_success_keeps_witness:
  "\<not> succeeded (NetworkError :: node_summary list response)
   \<and> succeeded (Http 200 (Some ([] :: node_summary list)))
   \<and> observed ''/nodes'' [NetworkError, Http 200 (Some ([] :: node_summary list)), NetworkError] page
       = [False, False, False]"
proof -
  have outcomes: "\<not> succeeded (NetworkError :: node_summary list response)
      \<and> succeeded (Http 200 (Some ([] :: node_summary list)))
      \<and> \<not> succeeded (NetworkError :: node_summary list response)"
    by (simp add: response_ok_def)
  from failure_disconnects_success_keeps
    [of "''/nodes''" "NetworkError :: node_summary list response" page
        NetworkError "Http 200 (Some [])" NetworkError] outcomes
  show ?thesis by blast
qed

text \<open>
  The sequence the specification gives for C2 is not the one observed: the successful
  fetch in the middle does not bring the state back to Connected.
\<close>

theorem success_after_failure_stays_disconnected:
  "observed ''/nodes'' [NetworkError, Http 200 (Some ([] :: node_summary list)), NetworkError] page
     \<noteq> [False, True, False]"
  by (simp add: fetchAPI_def fetchAPI_send_def updateConnectionStatus_def response_ok_def
      page_def constructor_def)

text \<open>
  Where Connected comes from: \<open>fetchAllData\<close> sets it once its five fetches are done,
  whatever their outcomes.
\<close>

lemma fetchAllData_connects:
  "snd (fetchAllData b rs s) = None \<Longrightarrow> isConnected (fst (fetchAllData b rs s))"
  by (auto simp: fetchAllData_def Let_def updateConnectionStatus_def split: prod.splits option.splits)

text \<open>
  C5 (as the code has it). A push-stream message whose body does not parse changes
  nothing in the current version: the connection state, the live feed and every other part
  of the state stay as they are. In the older version the exception leaves the handler, and
  the connection state, the live feed and the requests stay as they are.
\<close>

theorem keepalive_changes_nothing:
  "onmessage b None resp s = s
   \<and> isConnected (onmessage_v2 None resp_stats resp_decisions s) = isConnected s
   \<and> liveDataContainer (onmessage_v2 None resp_stats resp_decisions s) = liveDataContainer s
   \<and> requests (onmessage_v2 None resp_stats resp_decisions s) = requests s"
  by (simp add: onmessage_def onmessage_v2_def unhandled_def)

text \<open>
  C5 as the specification words it fails: after a stream error, a keepalive leaves the
  state Disconnected, in both versions.
\<close>

theorem keepalive_leaves_disconnected:
  "\<not> isConnected (onmessage utc_browser (None :: reading option) NetworkError (onerror page))
   \<and> \<not> isConnected (onmessage_v2 None NetworkError NetworkError (onerror page))"
  by (simp add: onmessage_def onmessage_v2_def unhandled_def onerror_def updateConnectionStatus_def)

section \<open>Properties of the time window and the export\<close>








text \<open>
  C6 (as the code has it). An export requested while "custom" is selected and no range
  is confirmed is not skipped: one request for the export without \<open>start\<close> and \<open>end\<close>
  is sent, and the user is alerted only when that request fails.
\<close>

theorem unconfirmed_custom_export_is_unbounded:
  assumes "dom_timeRange s = ''custom''" and "confirmed_range s = None"
  shows "requests (downloadCSV b now_end now_start now_name resp s)
           = requests s @ [API_BASE_URL @ ''/api/export/csv'']
       \<and> (alerts (downloadCSV b now_end now_start now_name resp s) = alerts s) = succeeded resp
       \<and> (succeeded resp \<longrightarrow>
            length (downloads (downloadCSV b now_end now_start now_name resp s)) = Suc (length (downloads s)))"
proof -
  have params: "export_params b now_end now_start s = Inr []"
    using assms by (simp add: export_params_def)
  show ?thesis
    by (cases resp) (auto simp: downloadCSV_def params export_url_def Let_def split: option.splits)
qed

theorem unconfirmed_custom_export_is_unbounded_witness:
  "dom_timeRange (timeRange_change utc_browser ''custom'' NetworkError page) = ''custom''
   \<and> confirmed_range (timeRange_change utc_browser ''custom'' NetworkError page) = None
   \<and> succeeded (ok ''node_id,timestamp'')
   \<and> requests (downloadCSV utc_browser 1704153600000 1704153600000 1704153600000 (ok ''node_id,timestamp'')
         (timeRange_change utc_browser ''custom'' NetworkError page))
       = [API_BASE_URL @ ''/api/export/csv'']"
proof -
  have sel: "dom_timeRange (timeRange_change utc_browser ''custom'' NetworkError page) = ''custom''"
    by (simp add: timeRange_change_def)
  have unconfirmed: "confirmed_range (timeRange_change utc_browser ''custom'' NetworkError page) = None"
    by (simp add: timeRange_change_def confirmed_range_def page_def constructor_def)
  have none: "requests (timeRange_change utc_browser ''custom'' NetworkError page) = []"
    by (simp add: timeRange_change_def page_def constructor_def)
  have good: "succeeded (ok ''node_id,timestamp'')"
    by (simp add: ok_def response_ok_def)
  show ?thesis
    using sel unconfirmed good none
      unconfirmed_custom_export_is_unbounded [OF sel unconfirmed,
        of utc_browser 1704153600000 1704153600000 1704153600000 "ok ''node_id,timestamp''"]
    by simp
qed

text \<open>
  C6 as the specification words it fails: with "custom" just selected on the page as it
  loads, the export request leaves and nothing is shown to the user.
\<close>

theorem unconfirmed_custom_export_is_sent:
  "requests (timeRange_change utc_browser ''custom'' NetworkError page) = []
   \<and> requests (downloadCSV utc_browser 1704153600000 1704153600000 1704153600000 (ok ''node_id,timestamp'')
         (timeRange_change utc_browser ''custom'' NetworkError page))
       = [''https://mirror-nuke-lcd-ethical.trycloudflare.com/api/export/csv'']
   \<and> alerts (downloadCSV utc_browser 1704153600000 1704153600000 1704153600000 (ok ''node_id,timestamp'')
         (timeRange_change utc_browser ''custom'' NetworkError page)) = []"
  by (simp add: downloadCSV_def export_params_def export_url_def confirmed_range_def
      timeRange_change_def page_def constructor_def ok_def response_ok_def API_BASE_URL_def Let_def)

section \<open>Properties of the map\<close>





text \<open>
  The other side of the older version: one location without a latitude, and the map
  library's exception leaves the map cleared, with no marker and no heat layer.
\<close>

lemma absent_latitude_throws_v2:
  "updateMap_v2 sample_divide [location_at ''node-1'' None (Some (-86.2)) (Some 20)]
        (constructor ''24'' ''temperature'' [])
      = (constructor ''24'' ''temperature'' [], Some InvalidLatLng)"
  by (simp add: updateMap_v2_def updateMap_each_v2_def location_at_def constructor_def Let_def)

lemma updateMap_each_zero:
  "loc_lat l = Some 0 \<or> loc_lon l = Some 0 \<or> loc_lat l = None \<or> loc_lon l = None
     \<Longrightarrow> updateMap_each m l acc = acc"
  by (auto simp: updateMap_each_def)

lemma updateMap_collect_skip:
  assumes "\<And>acc. updateMap_each m l acc = acc"
  shows "updateMap_collect m (xs @ l # ys) = updateMap_collect m (xs @ ys)"
  by (simp add: updateMap_collect_def assms)

text \<open>
  C10. A location whose latitude or longitude is \<open>0\<close> contributes neither a marker nor
  a heat sample: the map is built as if the location were not in the list, and as if its
  coordinates were absent.
\<close>

theorem zero_coordinate_is_absent:
  assumes "loc_lat l = Some 0 \<or> loc_lon l = Some 0"
  shows "updateMap_collect m (xs @ l # ys) = updateMap_collect m (xs @ ys)
       \<and> updateMap_collect m (xs @ l # ys)
           = updateMap_collect m (xs @ l\<lparr>loc_lat := None, loc_lon := None\<rparr> # ys)
       \<and> updateMap (xs @ l # ys) s = updateMap (xs @ l\<lparr>loc_lat := None, loc_lon := None\<rparr> # ys) s"
proof -
  have a: "updateMap_collect m (xs @ l # ys) = updateMap_collect m (xs @ ys)" for m
    using assms by (intro updateMap_collect_skip updateMap_each_zero) blast
  have b: "updateMap_collect m (xs @ l\<lparr>loc_lat := None, loc_lon := None\<rparr> # ys)
      = updateMap_collect m (xs @ ys)" for m
    by (intro updateMap_collect_skip updateMap_each_zero) simp
  show ?thesis
    by (simp add: a b updateMap_def)
qed

theorem zero_coordinate_is_absent_witness:
  "loc_lat (location_at ''node-1'' (Some 0) (Some 12.5) (Some 20)) = Some 0
   \<and> updateMap_collect ''temp'' [location_at ''node-1'' (Some 0) (Some 12.5) (Some 20)] = ([], [])
   \<and> markers (updateMap [location_at ''node-1'' (Some 0) (Some 12.5) (Some 20)] page) = []
   \<and> heatLayer (updateMap [location_at ''node-1'' (Some 0) (Some 12.5) (Some 20)] page) = None"
proof -
  have zero: "loc_lat (location_at ''node-1'' (Some 0) (Some 12.5) (Some 20)) = Some 0
      \<or> loc_lon (location_at ''node-1'' (Some 0) (Some 12.5) (Some 20)) = Some 0"
    by (simp add: location_at_def)
  have empty: "updateMap_collect ''temp'' [] = ([], [])"
    by (simp add: updateMap_collect_def)
  show ?thesis
    using zero_coordinate_is_absent [OF zero, of "''temp''" "[]" "[]" page] empty
    by (simp add: location_at_def updateMap_def page_def constructor_def)
qed

section \<open>Properties of the series aggregation\<close>

text \<open>
  Grouping keeps, for every node, its own points in the order of the input, and the
  nodes in the order of their first point. It throws only on a node identifier that names
  a member of \<open>Object.prototype\<close>.
\<close>

lemma map_fst_push_point: "map fst (push_point p nd) = map fst nd"
  by (induction nd) auto

lemma node_points_push_point:
  "distinct (map fst nd) \<Longrightarrow> has_own nd (pt_node_id p) \<Longrightarrow>
     node_points (push_point p nd) k = node_points nd k @ (if k = pt_node_id p then [p] else [])"
proof (induction nd)
  case Nil
  then show ?case by (simp add: has_own_def)
next
  case (Cons a nd)
  obtain k' ps where a: "a = (k', ps)" by (cases a)
  show ?case
  proof (cases "k' = pt_node_id p")
    case True
    then show ?thesis using a by (simp add: node_points_def)
  next
    case False
    then have "has_own nd (pt_node_id p)" using Cons.prems a by (auto simp: has_own_def)
    then have "node_points (push_point p nd) k = node_points nd k @ (if k = pt_node_id p then [p] else [])"
      using Cons by simp
    then show ?thesis using a False by (auto simp: node_points_def)
  qed
qed

lemma node_points_new_key:
  "\<not> has_own nd k' \<Longrightarrow> node_points (nd @ [(k', [])]) k = node_points nd k"
  by (auto simp: node_points_def has_own_def map_add_def map_of_eq_None_iff [symmetric]
      split: option.splits)

lemma group_by_node_result:
  assumes "group_by_node ps nd = Inr nd'" and "distinct (map fst nd)"
  shows "map fst nd' = set_add_all (map fst nd) (map pt_node_id ps)
       \<and> distinct (map fst nd')
       \<and> (\<forall>k. node_points nd' k = node_points nd k @ filter (\<lambda>p. pt_node_id p = k) ps)"
  using assms
proof (induction ps arbitrary: nd)
  case Nil
  then show ?case by simp
next
  case (Cons p ps)
  define nd1 where "nd1 = (if \<not> (has_own nd (pt_node_id p) \<or> pt_node_id p \<in> set Object_prototype_keys)
                 then nd @ [(pt_node_id p, [])] else nd)"
  have own: "has_own nd1 (pt_node_id p)"
    using Cons.prems(1) by (auto simp: nd1_def Let_def split: if_splits)
  have rest: "group_by_node ps (push_point p nd1) = Inr nd'"
    using Cons.prems(1) own by (simp add: nd1_def Let_def split: if_splits)
  have keys1: "map fst nd1 = (if pt_node_id p \<in> set (map fst nd) then map fst nd
                                 else map fst nd @ [pt_node_id p])"
    using own by (auto simp: nd1_def has_own_def)
  have dist1: "distinct (map fst nd1)"
    using Cons.prems(2) by (auto simp: keys1)
  have pts1: "node_points nd1 k = node_points nd k" for k
    by (simp add: nd1_def node_points_new_key)
  have dist2: "distinct (map fst (push_point p nd1))"
    using dist1 by (simp add: map_fst_push_point)
  note step = Cons.IH [OF rest dist2]
  have ih1: "map fst nd' = set_add_all (map fst nd1) (map pt_node_id ps)"
    using step by (simp only: map_fst_push_point)
  have ih2: "distinct (map fst nd')"
    using step by blast
  have ih3: "node_points nd' k = node_points (push_point p nd1) k @ filter (\<lambda>p. pt_node_id p = k) ps" for k
    using step by blast
  have "node_points nd' k = node_points nd k @ filter (\<lambda>q. pt_node_id q = k) (p # ps)" for k
    using ih3 [of k] node_points_push_point [OF dist1 own, of k] pts1 [of k] by auto
  moreover have "map fst nd' = set_add_all (map fst nd) (map pt_node_id (p # ps))"
    using ih1 keys1 by simp
  ultimately show ?case using ih2 by blast
qed

lemma group_by_node_total:
  "list_all (\<lambda>p. pt_node_id p \<notin> set Object_prototype_keys) ps \<Longrightarrow> \<exists>nd'. group_by_node ps nd = Inr nd'"
proof (induction ps arbitrary: nd)
  case Nil
  then show ?case by simp
next
  case (Cons p ps)
  then show ?case by (auto simp: Let_def has_own_def)
qed

lemma updateCharts_returns:
  assumes "list_all (\<lambda>p. pt_node_id p \<notin> set Object_prototype_keys) pts"
  shows "\<exists>s'. updateCharts b pts s = Inr s'"
proof -
  obtain nd where "group_by_node pts [] = Inr nd"
    using group_by_node_total [OF assms] by blast
  then show ?thesis by (simp add: updateCharts_def)
qed

lemma grouped_keys:
  assumes "group_by_node pts [] = Inr nd"
  shows "Object_keys nd = node_order pts"
proof -
  have "map fst nd = unique (map pt_node_id pts)"
    using group_by_node_result [OF assms] by (simp add: unique_def)
  then show ?thesis
    by (simp add: Object_keys_def node_order_def o_def)
qed

lemma grouped_points:
  assumes "group_by_node pts [] = Inr nd"
  shows "map metric (node_points nd k) = node_series metric k pts"
  using group_by_node_result [OF assms] by (simp add: node_series_def node_points_def)

lemma node_datasets_table:
  assumes "group_by_node pts [] = Inr nd"
  shows "dataset_table \<lparr>ch_labels = labels, ch_datasets = node_datasets metric nd\<rparr> = series_table metric pts"
  by (simp add: dataset_table_def node_datasets_def series_table_def o_def
      grouped_keys [OF assms] grouped_points [OF assms])

lemma map_fst_zip_upt: "map fst (zip ks [0 ..< length ks]) = ks"
  by (simp add: map_fst_zip)

lemma tempHumidity_data:
  assumes "group_by_node pts [] = Inr nd"
  shows "map ds_data (tempHumidityDatasets nd) =
           concat (map (\<lambda>k. [node_series pt_avg_temp k pts, node_series pt_avg_humidity k pts]) (node_order pts))"
proof -
  have "map ds_data (tempHumidityDatasets nd) =
      concat (map ((\<lambda>k. [node_series pt_avg_temp k pts, node_series pt_avg_humidity k pts]) \<circ> fst)
                (zip (Object_keys nd) [0 ..< length (Object_keys nd)]))"
    by (simp add: tempHumidityDatasets_def map_concat o_def case_prod_beta grouped_points [OF assms])
  also have "\<dots> = concat (map (\<lambda>k. [node_series pt_avg_temp k pts, node_series pt_avg_humidity k pts])
                (map fst (zip (Object_keys nd) [0 ..< length (Object_keys nd)])))"
    by (simp only: map_map)
  finally show ?thesis
    by (simp only: map_fst_zip_upt grouped_keys [OF assms])
qed

lemma soilSun_data:
  assumes "group_by_node pts [] = Inr nd"
  shows "map ds_data (soilSunDatasets nd) =
           concat (map (\<lambda>k. [node_series pt_avg_soil_moisture k pts, node_series pt_avg_lux k pts]) (node_order pts))"
  by (simp add: soilSunDatasets_def map_concat o_def grouped_points [OF assms] grouped_keys [OF assms])

lemma voltage_data:
  assumes "group_by_node pts [] = Inr nd"
  shows "map ds_data (voltageDatasets nd) = map (\<lambda>k. node_series pt_avg_voltage k pts) (node_order pts)"
  by (simp add: voltageDatasets_def o_def grouped_points [OF assms] grouped_keys [OF assms])

text \<open>
  C4 (as the code has it). For each node and each metric the value array holds the metric
  of that node's own input points, in input order: one value per point of the node, null
  only where the point's value is null, and no value that is not in the input. The array is
  not aligned to the label axis; no gap is inserted where the node has no point for a label.
\<close>

theorem series_hold_each_nodes_own_points:
  assumes "timeSeriesData \<noteq> []"
    and "updateCharts b timeSeriesData s = Inr s1"
    and "updateCharts_v2 b timeSeriesData s = Inr s2"
  shows "map (\<lambda>(name, c). (name, ch_labels c, dataset_table c)) (charts s1) =
           (let labels = unique (map (\<lambda>d. toLocaleString b (pt_timestamp d)) timeSeriesData)
            in [(''soilMoisture'', labels, series_table pt_avg_soil_moisture timeSeriesData),
                (''temperature'', labels, series_table pt_avg_temp timeSeriesData),
                (''humidity'', labels, series_table pt_avg_humidity timeSeriesData),
                (''lux'', labels, series_table pt_avg_lux timeSeriesData),
                (''voltage'', labels, series_table pt_avg_voltage timeSeriesData)])
       \<and> map (\<lambda>(name, c). (name, ch_labels c, map ds_data (ch_datasets c))) (charts s2) =
           (let labels = unique (map (\<lambda>d. toLocaleTimeString b (pt_timestamp d)) timeSeriesData)
            in [(''tempHumidity'', labels,
                   concat (map (\<lambda>k. [node_series pt_avg_temp k timeSeriesData,
                                      node_series pt_avg_humidity k timeSeriesData])
                               (node_order timeSeriesData))),
                (''soilSun'', labels,
                   concat (map (\<lambda>k. [node_series pt_avg_soil_moisture k timeSeriesData,
                                      node_series pt_avg_lux k timeSeriesData])
                               (node_order timeSeriesData))),
                (''battery'', labels,
                   map (\<lambda>k. node_series pt_avg_voltage k timeSeriesData) (node_order timeSeriesData))])"
proof -
  obtain nd where nd: "group_by_node timeSeriesData [] = Inr nd"
    using assms(1,2) by (cases "group_by_node timeSeriesData []") (simp_all add: updateCharts_def)
  have s1: "charts s1 = chart_updates b timeSeriesData nd"
    using assms(1,2) nd by (auto simp: updateCharts_def)
  have s2: "charts s2 = chart_updates_v2 b timeSeriesData nd"
    using assms(1,3) nd by (auto simp: updateCharts_v2_def)
  show ?thesis
    by (simp add: s1 s2 chart_updates_def chart_updates_v2_def Let_def node_datasets_table [OF nd]
        tempHumidity_data [OF nd] soilSun_data [OF nd] voltage_data [OF nd])
qed

theorem series_hold_each_nodes_own_points_witness:
  "sample_points \<noteq> []
   \<and> updateCharts utc_browser sample_points page
       = Inr (page\<lparr>charts := chart_updates utc_browser sample_points sample_nodeData\<rparr>)
   \<and> updateCharts_v2 utc_browser sample_points page
       = Inr (page\<lparr>charts := chart_updates_v2 utc_browser sample_points sample_nodeData\<rparr>)
   \<and> map (\<lambda>(name, c). (name, dataset_table c)) (chart_updates utc_browser sample_points sample_nodeData)
       = [(''soilMoisture'', series_table pt_avg_soil_moisture sample_points),
          (''temperature'', series_table pt_avg_temp sample_points),
          (''humidity'', series_table pt_avg_humidity sample_points),
          (''lux'', series_table pt_avg_lux sample_points),
          (''voltage'', series_table pt_avg_voltage sample_points)]"
proof -
  have ne: "sample_points \<noteq> []"
    by (simp add: sample_points_def)
  have grouped: "group_by_node sample_points [] = Inr sample_nodeData"
    by (simp add: sample_points_def sample_nodeData_def point_at_def has_own_def
        Object_prototype_keys_def)
  have u1: "updateCharts utc_browser sample_points page
      = Inr (page\<lparr>charts := chart_updates utc_browser sample_points sample_nodeData\<rparr>)"
    using ne by (simp add: updateCharts_def grouped)
  have u2: "updateCharts_v2 utc_browser sample_points page
      = Inr (page\<lparr>charts := chart_updates_v2 utc_browser sample_points sample_nodeData\<rparr>)"
    using ne by (simp add: updateCharts_v2_def grouped)
  have "map (\<lambda>(name, c). (name, ch_labels c, dataset_table c))
          (chart_updates utc_browser sample_points sample_nodeData) =
        (let labels = unique (map (\<lambda>d. toLocaleString utc_browser (pt_timestamp d)) sample_points)
         in [(''soilMoisture'', labels, series_table pt_avg_soil_moisture sample_points),
             (''temperature'', labels, series_table pt_avg_temp sample_points),
             (''humidity'', labels, series_table pt_avg_humidity sample_points),
             (''lux'', labels, series_table pt_avg_lux sample_points),
             (''voltage'', labels, series_table pt_avg_voltage sample_points)])"
    using series_hold_each_nodes_own_points [OF ne u1 u2] by simp
  then have "map (\<lambda>(name, c). (name, dataset_table c)) (chart_updates utc_browser sample_points sample_nodeData)
       = [(''soilMoisture'', series_table pt_avg_soil_moisture sample_points),
          (''temperature'', series_table pt_avg_temp sample_points),
          (''humidity'', series_table pt_avg_humidity sample_points),
          (''lux'', series_table pt_avg_lux sample_points),
          (''voltage'', series_table pt_avg_voltage sample_points)]"
    by (simp add: chart_updates_def Let_def)
  then show ?thesis
    using ne u1 u2 by blast
qed

text \<open>
  C4 as the specification words it fails: with two labels, node-b has one value, and it
  stands at the first label position, for which node-b has no point.
\<close>

theorem node_b_value_under_wrong_label:
  "shown_series (updateCharts utc_browser sample_points page) ''temperature'' =
     Some ([''2024-01-01T10:00'', ''2024-01-01T11:00''],
           [(''node-a'', [Some 20, Some 21]), (''node-b'', [Some 19])])"
  by code_simp

end
